theory Spec2Isabelle
  imports Main
begin

section \<open>The download endpoint of \<^verbatim>\<open>src/api/download.js\<close>\<close>

text \<open>
  The repository is one asynchronous request handler. It validates the request, fetches
  an HLS manifest, has a library parse it, writes a concat list into a temporary
  directory and lets an external transcoder stream the result into the response.

  The handler is embedded as a function from an environment (what the network, the
  parser, the clock, the file system and the transcoder do), an initial file system and
  a request to a result: the response as the handler left it, the file system afterwards
  and the way the promise returned by the handler settled.
\<close>

subsection \<open>JavaScript values\<close>

text \<open>
  \<^verbatim>\<open>req.body\<close> is whatever the platform parsed from the request body and
  \<^verbatim>\<open>req.query\<close> is the parsed query string, so \<^verbatim>\<open>url\<close> can be any JSON value
  (a repeated query parameter gives an array). Only the zero test of a number matters
  to the handler, so numbers are integers here.
\<close>

datatype jsval =
    JUndefined
  | JNull
  | JBool bool
  | JNum int
  | JStr string
  | JArr "jsval list"
  | JObj "(string \<times> jsval) list"

text \<open>\<^verbatim>\<open>!v\<close> is \<open>\<not> truthy v\<close>.\<close>

fun truthy :: "jsval \<Rightarrow> bool" where
  "truthy JUndefined = False"
| "truthy JNull = False"
| "truthy (JBool b) = b"
| "truthy (JNum n) = (n \<noteq> 0)"
| "truthy (JStr s) = (s \<noteq> [])"
| "truthy (JArr xs) = True"
| "truthy (JObj kvs) = True"

text \<open>
  \<^verbatim>\<open>v?.k\<close> for a key that no built-in prototype defines: the property of an object,
  \<^verbatim>\<open>undefined\<close> for \<^verbatim>\<open>undefined\<close>, \<^verbatim>\<open>null\<close> and every value without that property.
\<close>

fun optional_prop :: "jsval \<Rightarrow> string \<Rightarrow> jsval" where
  "optional_prop (JObj kvs) k = (case map_of kvs k of Some v \<Rightarrow> v | None \<Rightarrow> JUndefined)"
| "optional_prop v k = JUndefined"

text \<open>
  A thrown error, as the catch block reads it: \<^verbatim>\<open>error.message\<close>, and the status of
  \<^verbatim>\<open>error.response\<close> when the error carries a response (the HTTP client's errors for
  a non-2xx answer do).
\<close>

record js_error =
  message :: string
  response_status :: "nat option"

definition type_error :: "string \<Rightarrow> js_error" where
  "type_error msg = \<lparr>message = msg, response_status = None\<rparr>"

subsection \<open>String operations\<close>

definition startsWith :: "string \<Rightarrow> string \<Rightarrow> bool" where
  "startsWith s p = (take (length p) s = p)"

fun includes_str :: "string \<Rightarrow> string \<Rightarrow> bool" where
  "includes_str [] p = (p = [])"
| "includes_str (c # cs) p = (startsWith (c # cs) p \<or> includes_str cs p)"

text \<open>
  \<^verbatim>\<open>s.lastIndexOf(c)\<close> for a one-character search string: the index of the last
  occurrence, \<open>-1\<close> when there is none.
\<close>

fun lastIndexOf :: "string \<Rightarrow> char \<Rightarrow> int" where
  "lastIndexOf [] c = - 1"
| "lastIndexOf (x # xs) c =
     (let r = lastIndexOf xs c in
      if 0 \<le> r then r + 1 else if x = c then 0 else - 1)"

text \<open>
  \<^verbatim>\<open>s.substring(a, b)\<close>: both indices are clamped to the string and swapped when
  they come in the wrong order.
\<close>

definition substring :: "string \<Rightarrow> int \<Rightarrow> int \<Rightarrow> string" where
  "substring s a b =
     (let n = int (length s);
          a' = max 0 (min a n);
          b' = max 0 (min b n);
          lo = min a' b';
          hi = max a' b'
      in take (nat (hi - lo)) (drop (nat lo) s))"

text \<open>
  \<^verbatim>\<open>url.includes(p)\<close> on an arbitrary value: substring search on a string, membership
  on an array, and a \<^verbatim>\<open>TypeError\<close> on every other truthy value, which has no such
  method.
\<close>

fun js_includes :: "jsval \<Rightarrow> string \<Rightarrow> js_error + bool" where
  "js_includes (JStr s) p = Inr (includes_str s p)"
| "js_includes (JArr xs) p = Inr (JStr p \<in> set xs)"
| "js_includes v p = Inl (type_error ''url.includes is not a function'')"

text \<open>\<^verbatim>\<open>xs.join(sep)\<close> on an array of strings.\<close>

fun js_join :: "string \<Rightarrow> string list \<Rightarrow> string" where
  "js_join sep [] = []"
| "js_join sep [x] = x"
| "js_join sep (x # y # ys) = x @ sep @ js_join sep (y # ys)"

text \<open>Decimal digits of a number, as a template literal prints \<^verbatim>\<open>Date.now()\<close>.\<close>

fun show_nat :: "nat \<Rightarrow> string" where
  "show_nat n =
     (if n < 10 then [char_of (48 + n)]
      else show_nat (n div 10) @ [char_of (48 + n mod 10)])"

declare show_nat.simps [simp del]

subsection \<open>The segment list builder (lines 68 and 80 to 89)\<close>

record segment =
  uri :: string

definition baseUrl :: "string \<Rightarrow> string" where
  "baseUrl url = substring url 0 (lastIndexOf url (CHR ''/'') + 1)"

definition segmentUrl :: "string \<Rightarrow> segment \<Rightarrow> string" where
  "segmentUrl base seg =
     (if \<not> startsWith (uri seg) ''http'' then base @ uri seg else uri seg)"

definition segmentLine :: "string \<Rightarrow> segment \<Rightarrow> string" where
  "segmentLine base seg = ''file '' @ [CHR 0x27] @ segmentUrl base seg @ [CHR 0x27]"

definition segmentsList :: "string \<Rightarrow> segment list \<Rightarrow> string" where
  "segmentsList base segs = js_join [CHR 0x0A] (map (segmentLine base) segs)"

subsection \<open>File system\<close>

text \<open>
  Directories and files by path. \<^verbatim>\<open>mkdirSync\<close> and \<^verbatim>\<open>writeFileSync\<close> can throw
  (the environment says when); deleting an existing file of the request's own
  directory always succeeds, so the empty \<^verbatim>\<open>catch (e) {}\<close> around the two deletions has
  no branch of its own.
\<close>

record filesystem =
  dirs :: "string set"
  files :: "string \<rightharpoonup> string"

definition existsSync :: "filesystem \<Rightarrow> string \<Rightarrow> bool" where
  "existsSync fs p = (p \<in> dirs fs \<or> p \<in> dom (files fs))"

definition mkdirSync :: "js_error option \<Rightarrow> filesystem \<Rightarrow> string \<Rightarrow> js_error + filesystem" where
  "mkdirSync failure fs p =
     (case failure of
        Some e \<Rightarrow> Inl e
      | None \<Rightarrow> Inr (fs\<lparr>dirs := insert p (dirs fs)\<rparr>))"

definition writeFileSync ::
  "js_error option \<Rightarrow> filesystem \<Rightarrow> string \<Rightarrow> string \<Rightarrow> js_error + filesystem" where
  "writeFileSync failure fs p contents =
     (case failure of
        Some e \<Rightarrow> Inl e
      | None \<Rightarrow> Inr (fs\<lparr>files := (files fs)(p \<mapsto> contents)\<rparr>))"

definition unlinkSync :: "filesystem \<Rightarrow> string \<Rightarrow> filesystem" where
  "unlinkSync fs p = fs\<lparr>files := (files fs)(p := None)\<rparr>"

definition join_path :: "string \<Rightarrow> string \<Rightarrow> string" where
  "join_path a b = a @ ''/'' @ b"

subsection \<open>Responses\<close>

text \<open>
  \<open>ended\<close> records that the response was finished: by the handler (\<^verbatim>\<open>end()\<close> or
  \<^verbatim>\<open>json(...)\<close>), or by the pipe of line 128, whose option \<^verbatim>\<open>{ end: true }\<close> ends
  the response when the output of the transcoder ends. A response the transcoder is
  piped into has the content \<open>StreamBody\<close>. The status starts at 200, the default of a
  fresh response. Only the
  headers that the handler sets are tracked, and logging is left out: neither changes
  what the handler answers.
\<close>

datatype content = NoBody | JsonBody jsval | StreamBody

record response =
  status :: nat
  headers :: "string \<rightharpoonup> string"
  payload :: content
  ended :: bool

definition fresh_response :: response where
  "fresh_response = \<lparr>status = 200, headers = Map.empty, payload = NoBody, ended = False\<rparr>"

definition setHeader :: "string \<Rightarrow> string \<Rightarrow> response \<Rightarrow> response" where
  "setHeader k v r = r\<lparr>headers := (headers r)(k \<mapsto> v)\<rparr>"

definition set_status :: "nat \<Rightarrow> response \<Rightarrow> response" where
  "set_status code r = r\<lparr>status := code\<rparr>"

definition send_json :: "jsval \<Rightarrow> response \<Rightarrow> response" where
  "send_json v r = r\<lparr>payload := JsonBody v, ended := True\<rparr>"

definition end_response :: "response \<Rightarrow> response" where
  "end_response r = r\<lparr>ended := True\<rparr>"

definition pipe_into :: "response \<Rightarrow> response" where
  "pipe_into r = r\<lparr>payload := StreamBody\<rparr>"

text \<open>Lines 10 to 16.\<close>

definition cors :: "response \<Rightarrow> response" where
  "cors r =
     setHeader ''Access-Control-Allow-Headers''
       ''X-CSRF-Token, X-Requested-With, Accept, Accept-Version, Content-Length, Content-MD5, Content-Type, Date, X-Api-Version''
     (setHeader ''Access-Control-Allow-Methods'' ''GET,OPTIONS,POST''
     (setHeader ''Access-Control-Allow-Origin'' ''*''
     (setHeader ''Access-Control-Allow-Credentials'' ''true'' r)))"

subsection \<open>Requests, environment and results\<close>

record request =
  "method" :: string
  body :: jsval
  query :: jsval

datatype fetch_result = FetchOk jsval | FetchFails js_error

record manifest =
  segments :: "segment list option"

datatype parse_result = Parsed manifest | ParseThrows js_error

text \<open>
  What the transcoder invocation inside the promise executor does. It throws while the
  command is being set up (\<open>RunnerThrows\<close>); or the process cannot be started, the
  \<^verbatim>\<open>error\<close> event fires and nothing ever flows through the pipe
  (\<open>RunnerNotStarted\<close>); or the process runs, its output stream ends and exactly one of
  the two terminal events fires (\<open>RunnerError\<close>, \<open>RunnerEnd\<close>).
\<close>

datatype runner_outcome =
    RunnerEnd
  | RunnerError js_error
  | RunnerNotStarted js_error
  | RunnerThrows js_error

record env =
  axios_get :: "jsval \<Rightarrow> fetch_result"
  parser :: "jsval \<Rightarrow> parse_result"
  tmpdir :: string
  now_output :: nat
  now_list :: nat
  now_header :: nat
  mkdir_failure :: "js_error option"
  write_failure :: "js_error option"
  ffmpeg :: runner_outcome

datatype settlement = Fulfilled | Rejected js_error

record result =
  res :: response
  disk :: filesystem
  settled :: settlement

text \<open>What running the try block gives: a value it returned, or an exception it threw.\<close>

datatype attempt = Returned result | Thrown js_error response filesystem

subsection \<open>The handler\<close>

text \<open>\<^verbatim>\<open>return res.status(code).json(v)\<close>: the handler's promise is fulfilled.\<close>

definition respond :: "nat \<Rightarrow> jsval \<Rightarrow> response \<Rightarrow> filesystem \<Rightarrow> result" where
  "respond code v r fs = \<lparr>res = send_json v (set_status code r), disk = fs, settled = Fulfilled\<rparr>"

definition missing_url_payload :: jsval where
  \<open>missing_url_payload = JObj
     [(''error'', JStr ''Missing URL parameter''),
      (''usage'', JStr ''Send a POST request with { "url": "your_m3u8_url" } or GET with ?url=your_m3u8_url''),
      (''example'', JStr ''https://your-vercel-app.vercel.app/api/download?url=https://media-cdn.classplusapp.com/.../master.m3u8'')]\<close>

definition invalid_url_payload :: jsval where
  "invalid_url_payload = JObj [(''error'', JStr ''URL must be a valid .m3u8 stream'')]"

definition no_segments_payload :: jsval where
  "no_segments_payload = JObj [(''error'', JStr ''No video segments found in the stream'')]"

definition failure_payload :: "js_error \<Rightarrow> jsval" where
  "failure_payload e = JObj
     [(''error'', JStr ''Failed to process video''),
      (''message'', JStr (message e)),
      (''tips'', JArr
         [JStr ''Ensure the m3u8 URL is accessible'',
          JStr ''Check if the video requires authentication'',
          JStr ''Try using a VPN if the content is region-locked''])]"

text \<open>The two deletions of the event handlers (lines 113 to 116 and 122 to 125).\<close>

definition cleanup :: "filesystem \<Rightarrow> string \<Rightarrow> string \<Rightarrow> filesystem" where
  "cleanup fs segmentsListFile outputFile =
     (let fs1 = (if existsSync fs segmentsListFile then unlinkSync fs segmentsListFile else fs)
      in if existsSync fs1 outputFile then unlinkSync fs1 outputFile else fs1)"

text \<open>
  Lines 98 to 129, the promise that the try block returns. An exception thrown inside
  the executor rejects the promise; the \<^verbatim>\<open>error\<close> event cleans up and rejects it; the
  \<^verbatim>\<open>end\<close> event cleans up and resolves it. When the process has run, the end of its
  output ends the response (line 128, \<^verbatim>\<open>{ end: true }\<close>), after a failure as after a
  success; when the process could not be started, nothing ends the response. The
  promise is returned without \<^verbatim>\<open>await\<close>, so its rejection is the rejection of the
  handler's own promise and never reaches the catch block of the handler.
\<close>

definition transcode :: "env \<Rightarrow> response \<Rightarrow> filesystem \<Rightarrow> string \<Rightarrow> string \<Rightarrow> result" where
  "transcode e r fs segmentsListFile outputFile =
     (case ffmpeg e of
        RunnerThrows err \<Rightarrow> \<lparr>res = r, disk = fs, settled = Rejected err\<rparr>
      | RunnerNotStarted err \<Rightarrow>
          \<lparr>res = pipe_into r, disk = cleanup fs segmentsListFile outputFile,
           settled = Rejected err\<rparr>
      | RunnerError err \<Rightarrow>
          \<lparr>res = end_response (pipe_into r),
           disk = cleanup fs segmentsListFile outputFile,
           settled = Rejected err\<rparr>
      | RunnerEnd \<Rightarrow>
          \<lparr>res = end_response (pipe_into r),
           disk = cleanup fs segmentsListFile outputFile,
           settled = Fulfilled\<rparr>)"

text \<open>
  Lines 67 to 129. \<^verbatim>\<open>url.substring\<close> exists on strings only; an array that passed the
  \<^verbatim>\<open>includes\<close> test raises a \<^verbatim>\<open>TypeError\<close> here.
\<close>

definition build_and_run ::
  "env \<Rightarrow> response \<Rightarrow> filesystem \<Rightarrow> jsval \<Rightarrow> segment list \<Rightarrow> attempt" where
  "build_and_run e r fs url segs =
     (case url of
        JStr u \<Rightarrow>
          (let base = baseUrl u;
               tempDir = join_path (tmpdir e) ''classplus-dl''
           in case (if \<not> existsSync fs tempDir then mkdirSync (mkdir_failure e) fs tempDir
                    else Inr fs) of
                Inl err \<Rightarrow> Thrown err r fs
              | Inr fs1 \<Rightarrow>
                  (let outputFile =
                         join_path tempDir (''lecture_'' @ show_nat (now_output e) @ ''.mp4'');
                       segmentsListFile =
                         join_path tempDir (''segments_'' @ show_nat (now_list e) @ ''.txt'')
                   in case writeFileSync (write_failure e) fs1 segmentsListFile
                             (segmentsList base segs) of
                        Inl err \<Rightarrow> Thrown err r fs1
                      | Inr fs2 \<Rightarrow>
                          (let r1 = setHeader ''Content-Type'' ''video/mp4'' r;
                               r2 = setHeader ''Content-Disposition''
                                      (''attachment; filename='' @ [CHR 0x22] @ ''lecture_''
                                         @ show_nat (now_header e) @ ''.mp4'' @ [CHR 0x22]) r1
                           in Returned (transcode e r2 fs2 segmentsListFile outputFile))))
      | _ \<Rightarrow> Thrown (type_error ''url.substring is not a function'') r fs)"

text \<open>Lines 31 to 35: where the handler reads \<^verbatim>\<open>url\<close> from.\<close>

definition url_of :: "request \<Rightarrow> jsval" where
  "url_of req =
     (if method req = ''POST'' then optional_prop (body req) ''url''
      else optional_prop (query req) ''url'')"

text \<open>Lines 28 to 129, the body of the try block.\<close>

definition try_block :: "env \<Rightarrow> response \<Rightarrow> filesystem \<Rightarrow> request \<Rightarrow> attempt" where
  "try_block e r fs req =
     (let url = url_of req in
      if \<not> truthy url then Returned (respond 400 missing_url_payload r fs)
      else
        (case js_includes url ''.m3u8'' of
           Inl err \<Rightarrow> Thrown err r fs
         | Inr found \<Rightarrow>
             if \<not> found then Returned (respond 400 invalid_url_payload r fs)
             else
               (case axios_get e url of
                  FetchFails err \<Rightarrow> Thrown err r fs
                | FetchOk m3u8Content \<Rightarrow>
                    (case parser e m3u8Content of
                       ParseThrows err \<Rightarrow> Thrown err r fs
                     | Parsed parsedManifest \<Rightarrow>
                         (case segments parsedManifest of
                            None \<Rightarrow> Returned (respond 400 no_segments_payload r fs)
                          | Some segs \<Rightarrow>
                              if length segs = 0
                              then Returned (respond 400 no_segments_payload r fs)
                              else build_and_run e r fs url segs)))))"

text \<open>Lines 131 to 153, the catch block.\<close>

definition catch_block :: "js_error \<Rightarrow> response \<Rightarrow> filesystem \<Rightarrow> result" where
  "catch_block err r fs =
     (if response_status err = Some 404
      then respond 404
             (JObj [(''error'', JStr ''Video not found. The URL might be expired or invalid.'')]) r fs
      else if response_status err = Some 403
      then respond 403
             (JObj [(''error'', JStr ''Access forbidden. The video might be protected.'')]) r fs
      else respond 500 (failure_payload err) r fs)"

text \<open>The exported function.\<close>

definition handler :: "env \<Rightarrow> filesystem \<Rightarrow> request \<Rightarrow> result" where
  "handler e fs req =
     (let r = cors fresh_response in
      if method req = ''OPTIONS''
      then \<lparr>res = end_response (set_status 200 r), disk = fs, settled = Fulfilled\<rparr>
      else if method req \<noteq> ''POST'' \<and> method req \<noteq> ''GET''
      then respond 405 (JObj [(''error'', JStr ''Method not allowed'')]) r fs
      else
        (case try_block e r fs req of
           Returned out \<Rightarrow> out
         | Thrown err r' fs' \<Rightarrow> catch_block err r' fs'))"

subsection \<open>Sample inputs\<close>

definition empty_disk :: filesystem where
  "empty_disk = \<lparr>dirs = {}, files = Map.empty\<rparr>"

definition sample_manifest :: manifest where
  "sample_manifest =
     \<lparr>segments = Some [\<lparr>uri = ''seg0.ts''\<rparr>, \<lparr>uri = ''https://cdn.example.com/abs/seg1.ts''\<rparr>]\<rparr>"

definition sample_env :: "runner_outcome \<Rightarrow> env" where
  "sample_env outcome =
     \<lparr>axios_get = (\<lambda>u. FetchOk (JStr ''#EXTM3U'')),
      parser = (\<lambda>c. Parsed sample_manifest),
      tmpdir = ''/tmp'',
      now_output = 41, now_list = 42, now_header = 43,
      mkdir_failure = None, write_failure = None,
      ffmpeg = outcome\<rparr>"

definition sample_get :: "string \<Rightarrow> request" where
  "sample_get u = \<lparr>method = ''GET'', body = JUndefined, query = JObj [(''url'', JStr u)]\<rparr>"

definition sample_post :: "jsval \<Rightarrow> request" where
  "sample_post v = \<lparr>method = ''POST'', body = JObj [(''url'', v)], query = JObj []\<rparr>"

definition sample_url :: string where
  "sample_url = ''https://cdn.example.com/path/master.m3u8''"

definition invalid_output :: js_error where
  "invalid_output = \<lparr>message = ''Invalid output'', response_status = None\<rparr>"

definition cannot_find_ffmpeg :: js_error where
  "cannot_find_ffmpeg = \<lparr>message = ''Cannot find ffmpeg'', response_status = None\<rparr>"

definition ffmpeg_failure :: js_error where
  "ffmpeg_failure = \<lparr>message = ''ffmpeg exited with code 1'', response_status = None\<rparr>"

subsection \<open>Notions used in the statements\<close>

text \<open>
  The manifest that the handler holds at line 61, when the request gets that far:
  \<^verbatim>\<open>url\<close> passed both tests, the fetch returned and the parser did not throw.
\<close>

definition parsed_manifest :: "env \<Rightarrow> request \<Rightarrow> manifest option" where
  "parsed_manifest e req =
     (let url = url_of req in
      if truthy url \<and> js_includes url ''.m3u8'' = Inr True
      then (case axios_get e url of
              FetchOk m3u8Content \<Rightarrow>
                (case parser e m3u8Content of
                   Parsed parsedManifest \<Rightarrow> Some parsedManifest
                 | ParseThrows err \<Rightarrow> None)
            | FetchFails err \<Rightarrow> None)
      else None)"

text \<open>The test of line 63.\<close>

definition zero_segments :: "manifest \<Rightarrow> bool" where
  "zero_segments m = (case segments m of None \<Rightarrow> True | Some segs \<Rightarrow> length segs = 0)"

text \<open>The lines of a text: its pieces between line feeds, as \<^verbatim>\<open>text.split('\n')\<close> gives them.\<close>

fun split_on :: "char \<Rightarrow> string \<Rightarrow> string list" where
  "split_on c [] = [[]]"
| "split_on c (x # xs) =
     (if x = c then [] # split_on c xs
      else (case split_on c xs of [] \<Rightarrow> [[x]] | l # ls \<Rightarrow> (x # l) # ls))"

definition lines_of :: "string \<Rightarrow> string list" where
  "lines_of t = split_on (CHR 0x0A) t"

section \<open>Properties\<close>

lemmas response_defs = respond_def send_json_def set_status_def end_response_def
  cors_def setHeader_def fresh_response_def pipe_into_def

lemmas handler_defs = handler_def try_block_def catch_block_def build_and_run_def
  transcode_def cleanup_def url_of_def existsSync_def mkdirSync_def writeFileSync_def
  unlinkSync_def join_path_def

lemma show_nat_41: "show_nat 41 = ''41''"
  by code_simp

lemma show_nat_42: "show_nat 42 = ''42''"
  by code_simp

lemma show_nat_43: "show_nat 43 = ''43''"
  by code_simp

lemmas sample_defs = sample_env_def sample_get_def sample_post_def sample_manifest_def
  sample_url_def empty_disk_def ffmpeg_failure_def invalid_output_def
  cannot_find_ffmpeg_def show_nat_41 show_nat_42 show_nat_43

subsection \<open>String operations\<close>

lemma startsWith_iff: "startsWith s p = (\<exists>rest. s = p @ rest)"
  unfolding startsWith_def
  by (metis append_eq_conv_conj append_take_drop_id)

text \<open>\<open>includes_str\<close> is the substring test.\<close>

lemma includes_str_iff: "includes_str s p = (\<exists>a b. s = a @ p @ b)"
proof (induction s)
  case Nil
  then show ?case by simp
next
  case (Cons c cs)
  have "(\<exists>a b. c # cs = a @ p @ b) =
        ((\<exists>b. c # cs = p @ b) \<or> (\<exists>a' b. cs = a' @ p @ b))"
    by (auto simp add: Cons_eq_append_conv)
  then show ?case using Cons by (simp add: startsWith_iff)
qed

subsection \<open>Method dispatch\<close>

text \<open>
  Claim C8. Every request with the method \<^verbatim>\<open>OPTIONS\<close> is answered with status 200 and an
  empty body, whatever its body and query hold: the response is finished with that
  status and nothing written, the handler's promise is fulfilled and the disk is
  untouched.
\<close>

theorem options_preflight:
  "method req = ''OPTIONS'' \<Longrightarrow>
     status (res (handler e fs req)) = 200
     \<and> payload (res (handler e fs req)) = NoBody
     \<and> ended (res (handler e fs req))
     \<and> settled (handler e fs req) = Fulfilled
     \<and> disk (handler e fs req) = fs"
  by (simp add: handler_def response_defs)

theorem options_preflight_witness:
  "status (res (handler (sample_env RunnerEnd) empty_disk
      \<lparr>method = ''OPTIONS'', body = JObj [(''url'', JNum 5)], query = JObj [(''url'', JStr ''x'')]\<rparr>)) = 200
   \<and> payload (res (handler (sample_env RunnerEnd) empty_disk
      \<lparr>method = ''OPTIONS'', body = JObj [(''url'', JNum 5)], query = JObj [(''url'', JStr ''x'')]\<rparr>)) = NoBody
   \<and> ended (res (handler (sample_env RunnerEnd) empty_disk
      \<lparr>method = ''OPTIONS'', body = JObj [(''url'', JNum 5)], query = JObj [(''url'', JStr ''x'')]\<rparr>))
   \<and> settled (handler (sample_env RunnerEnd) empty_disk
      \<lparr>method = ''OPTIONS'', body = JObj [(''url'', JNum 5)], query = JObj [(''url'', JStr ''x'')]\<rparr>) = Fulfilled"
  using options_preflight [of "\<lparr>method = ''OPTIONS'', body = JObj [(''url'', JNum 5)], query = JObj [(''url'', JStr ''x'')]\<rparr>"
      "sample_env RunnerEnd" empty_disk]
  by simp

text \<open>
  Claim C7. Every request whose method is none of \<^verbatim>\<open>GET\<close>, \<^verbatim>\<open>POST\<close> and
  \<^verbatim>\<open>OPTIONS\<close> is answered with status 405, whatever \<^verbatim>\<open>url\<close> it carries.
\<close>

theorem method_not_allowed:
  "method req \<notin> {''GET'', ''POST'', ''OPTIONS''} \<Longrightarrow>
     status (res (handler e fs req)) = 405
     \<and> payload (res (handler e fs req)) = JsonBody (JObj [(''error'', JStr ''Method not allowed'')])"
  by (simp add: handler_def response_defs)

theorem method_not_allowed_witness:
  "status (res (handler (sample_env RunnerEnd) empty_disk
      \<lparr>method = ''DELETE'', body = JUndefined,
       query = JObj [(''url'', JStr ''https://cdn.example.com/path/master.m3u8'')]\<rparr>)) = 405"
  using method_not_allowed [of "\<lparr>method = ''DELETE'', body = JUndefined,
       query = JObj [(''url'', JStr ''https://cdn.example.com/path/master.m3u8'')]\<rparr>"
      "sample_env RunnerEnd" empty_disk]
  by simp

subsection \<open>The url parameter\<close>

lemma payloads_differ: "missing_url_payload \<noteq> invalid_url_payload"
  by (simp add: missing_url_payload_def invalid_url_payload_def)

text \<open>
  Claim C9. A \<^verbatim>\<open>GET\<close> or \<^verbatim>\<open>POST\<close> request whose \<^verbatim>\<open>url\<close> is present and is the empty
  string is answered with status 400 and the payload of a missing parameter, not with
  the payload of the \<^verbatim>\<open>.m3u8\<close> validation.
\<close>

theorem empty_url_is_missing:
  "(method req = ''POST'' \<and> optional_prop (body req) ''url'' = JStr '''')
     \<or> (method req = ''GET'' \<and> optional_prop (query req) ''url'' = JStr '''') \<Longrightarrow>
   status (res (handler e fs req)) = 400
   \<and> payload (res (handler e fs req)) = JsonBody missing_url_payload
   \<and> payload (res (handler e fs req)) \<noteq> JsonBody invalid_url_payload"
  by (auto simp add: handler_def try_block_def url_of_def response_defs payloads_differ)

theorem empty_url_is_missing_witness:
  "status (res (handler (sample_env RunnerEnd) empty_disk (sample_post (JStr '''')))) = 400
   \<and> payload (res (handler (sample_env RunnerEnd) empty_disk (sample_post (JStr ''''))))
       = JsonBody missing_url_payload
   \<and> status (res (handler (sample_env RunnerEnd) empty_disk (sample_get ''''))) = 400
   \<and> payload (res (handler (sample_env RunnerEnd) empty_disk (sample_get '''')))
       = JsonBody missing_url_payload"
  using empty_url_is_missing [of "sample_post (JStr '''')" "sample_env RunnerEnd" empty_disk]
    empty_url_is_missing [of "sample_get ''''" "sample_env RunnerEnd" empty_disk]
  by (simp add: sample_post_def sample_get_def)

text \<open>
  Claim C10. The method alone decides where \<^verbatim>\<open>url\<close> is read from: the result of a
  \<^verbatim>\<open>POST\<close> request does not depend on its query, and the result of a \<^verbatim>\<open>GET\<close>
  request does not depend on its body.
\<close>

theorem url_source_by_method:
  "method rp = ''POST'' \<Longrightarrow> method rg = ''GET'' \<Longrightarrow>
     handler e fs (rp\<lparr>query := q\<rparr>) = handler e fs rp
     \<and> handler e fs (rg\<lparr>body := b\<rparr>) = handler e fs rg"
  by (simp add: handler_def try_block_def url_of_def)

theorem url_source_by_method_witness:
  "handler (sample_env RunnerEnd) empty_disk
      ((sample_post (JStr ''https://a.example/x.m3u8''))\<lparr>query := JObj [(''url'', JStr ''https://b.example/y.mp4'')]\<rparr>)
     = handler (sample_env RunnerEnd) empty_disk (sample_post (JStr ''https://a.example/x.m3u8''))
   \<and> handler (sample_env RunnerEnd) empty_disk
      ((sample_get ''https://a.example/x.m3u8'')\<lparr>body := JObj [(''url'', JStr ''https://b.example/y.mp4'')]\<rparr>)
     = handler (sample_env RunnerEnd) empty_disk (sample_get ''https://a.example/x.m3u8'')"
  using url_source_by_method [where rp = "sample_post (JStr ''https://a.example/x.m3u8'')"
      and rg = "sample_get ''https://a.example/x.m3u8''"
      and q = "JObj [(''url'', JStr ''https://b.example/y.mp4'')]"
      and b = "JObj [(''url'', JStr ''https://b.example/y.mp4'')]"
      and e = "sample_env RunnerEnd" and fs = empty_disk]
  by (simp add: sample_post_def sample_get_def)

subsection \<open>Status 400\<close>

lemma catch_block_status:
  "status (res (catch_block err r fs)) = 404 \<or> status (res (catch_block err r fs)) = 403
     \<or> status (res (catch_block err r fs)) = 500"
  by (simp add: catch_block_def response_defs)

lemma transcode_status: "status (res (transcode e r fs a b)) = status r"
  by (simp add: transcode_def response_defs split: runner_outcome.splits)

lemma build_and_run_status:
  "build_and_run e r fs url segs = Returned out \<Longrightarrow> status (res out) = status r"
  by (auto simp add: build_and_run_def Let_def transcode_status setHeader_def
      split: jsval.splits sum.splits if_splits)

lemma status_cors: "status (cors fresh_response) = 200"
  by (simp add: response_defs)

lemma settle_not_400:
  "status r = 200 \<Longrightarrow>
     status (res (case build_and_run e r fs url segs of
        Returned out \<Rightarrow> out | Thrown err r' fs' \<Rightarrow> catch_block err r' fs')) \<noteq> 400"
proof (cases "build_and_run e r fs url segs")
  case (Returned out)
  assume "status r = 200"
  with Returned build_and_run_status [OF Returned] show ?thesis by simp
next
  case (Thrown err r' fs')
  with catch_block_status [of err r' fs'] show ?thesis by auto
qed

lemma no_includes_method:
  "(\<forall>s. v \<noteq> JStr s) \<Longrightarrow> (\<forall>xs. v \<noteq> JArr xs) \<Longrightarrow>
     js_includes v p = Inl (type_error ''url.includes is not a function'')"
  by (cases v) simp_all

lemma type_error_status:
  "truthy (url_of req) \<Longrightarrow> (\<forall>s. url_of req \<noteq> JStr s) \<Longrightarrow> (\<forall>xs. url_of req \<noteq> JArr xs) \<Longrightarrow>
     status (res (case try_block e r fs req of
        Returned out \<Rightarrow> out | Thrown err r' fs' \<Rightarrow> catch_block err r' fs')) = 500"
  by (simp add: try_block_def catch_block_def no_includes_method type_error_def
      respond_def send_json_def set_status_def)

text \<open>
  Claim C5, as the code has it. For every \<^verbatim>\<open>GET\<close> or \<^verbatim>\<open>POST\<close> request the status is
  400 exactly when \<^verbatim>\<open>url\<close> is falsy (absent, \<^verbatim>\<open>null\<close>, \<^verbatim>\<open>false\<close>, 0 or the empty
  string), or it is a string or an array whose \<^verbatim>\<open>includes('.m3u8')\<close> test is false, or
  the manifest was fetched and parsed and has no segment list or an empty one. A truthy
  \<^verbatim>\<open>url\<close> that is neither a string nor an array gets status 500.
\<close>

theorem bad_request_iff:
  "method req \<in> {''GET'', ''POST''} \<Longrightarrow>
     ((status (res (handler e fs req)) = 400) =
        (\<not> truthy (url_of req)
         \<or> js_includes (url_of req) ''.m3u8'' = Inr False
         \<or> (\<exists>m. parsed_manifest e req = Some m \<and> zero_segments m)))
     \<and> (truthy (url_of req) \<and> (\<forall>s. url_of req \<noteq> JStr s) \<and> (\<forall>xs. url_of req \<noteq> JArr xs)
          \<longrightarrow> status (res (handler e fs req)) = 500)"
proof -
  assume m: "method req \<in> {''GET'', ''POST''}"
  let ?r = "cors fresh_response"
  have h: "handler e fs req =
      (case try_block e ?r fs req of
         Returned out \<Rightarrow> out | Thrown err r' fs' \<Rightarrow> catch_block err r' fs')"
    using m by (auto simp add: handler_def)
  have c: "\<And>err r' fs'. status (res (catch_block err r' fs')) \<noteq> 400"
  proof -
    fix err r' fs'
    show "status (res (catch_block err r' fs')) \<noteq> 400"
      using catch_block_status [of err r' fs'] by auto
  qed
  have iff: "(status (res (handler e fs req)) = 400) =
        (\<not> truthy (url_of req)
         \<or> js_includes (url_of req) ''.m3u8'' = Inr False
         \<or> (\<exists>m. parsed_manifest e req = Some m \<and> zero_segments m))"
    unfolding h try_block_def parsed_manifest_def zero_segments_def Let_def
    using settle_not_400 [OF status_cors, of e fs "url_of req"] c
    by (auto simp add: respond_def send_json_def set_status_def
        split: sum.splits fetch_result.splits parse_result.splits option.splits)
  have other: "truthy (url_of req) \<and> (\<forall>s. url_of req \<noteq> JStr s) \<and> (\<forall>xs. url_of req \<noteq> JArr xs)
          \<longrightarrow> status (res (handler e fs req)) = 500"
    unfolding h using type_error_status [of req e ?r fs] by blast
  show ?thesis using iff other by (rule conjI)
qed

theorem bad_request_iff_witness:
  "''GET'' \<in> {''GET'', ''POST''}
   \<and> js_includes (url_of (sample_get ''https://example.com/video.mp4'')) ''.m3u8'' = Inr False
   \<and> status (res (handler (sample_env RunnerEnd) empty_disk
         (sample_get ''https://example.com/video.mp4''))) = 400
   \<and> url_of (sample_post (JBool True)) = JBool True
   \<and> status (res (handler (sample_env RunnerEnd) empty_disk (sample_post (JBool True)))) = 500"
  using bad_request_iff [of "sample_get ''https://example.com/video.mp4''"
      "sample_env RunnerEnd" empty_disk]
    bad_request_iff [of "sample_post (JBool True)" "sample_env RunnerEnd" empty_disk]
  by (simp add: sample_get_def sample_post_def url_of_def startsWith_def)

text \<open>
  Claim C5 as stated fails where \<^verbatim>\<open>url\<close> is truthy and neither a string nor an array.
  For the body \<^verbatim>\<open>{"url": 5}\<close> of a \<^verbatim>\<open>POST\<close> request the parameter is present and
  holds no substring \<^verbatim>\<open>.m3u8\<close>, yet \<^verbatim>\<open>url.includes\<close> is not a function, the
  \<^verbatim>\<open>TypeError\<close> reaches the catch block and the status is 500, not 400.
\<close>

theorem bad_request_iff_counterexample:
  "status (res (handler (sample_env RunnerEnd) empty_disk (sample_post (JNum 5)))) = 500
   \<and> url_of (sample_post (JNum 5)) = JNum 5
   \<and> js_includes (JNum 5) ''.m3u8'' \<noteq> Inr True"
  by (simp add: handler_def try_block_def catch_block_def url_of_def sample_post_def
      response_defs type_error_def)

subsection \<open>The segment list builder\<close>

lemma lastIndexOf_bounds: "- 1 \<le> lastIndexOf s c \<and> lastIndexOf s c < int (length s)"
  by (induction s) (auto simp add: Let_def)

lemma baseUrl_take: "baseUrl url = take (nat (lastIndexOf url (CHR ''/'') + 1)) url"
  using lastIndexOf_bounds [of url "CHR ''/''"]
  by (simp add: baseUrl_def substring_def Let_def min_def max_def)

lemma lastIndexOf_none: "lastIndexOf s c < 0 \<Longrightarrow> c \<notin> set s"
  by (induction s) (auto simp add: Let_def split: if_splits)

lemma lastIndexOf_rest: "c \<notin> set (drop (nat (lastIndexOf s c + 1)) s)"
proof (induction s)
  case Nil
  then show ?case by simp
next
  case (Cons x xs)
  show ?case
  proof (cases "0 \<le> lastIndexOf xs c")
    case True
    then have "nat (lastIndexOf (x # xs) c + 1) = Suc (nat (lastIndexOf xs c + 1))"
      by (simp add: Let_def nat_add_distrib)
    with Cons show ?thesis by simp
  next
    case False
    then have "c \<notin> set xs" using lastIndexOf_none [of xs c] by simp
    with False show ?thesis by (simp add: Let_def)
  qed
qed

lemma lastIndexOf_hit:
  "0 \<le> lastIndexOf s c \<Longrightarrow> s ! nat (lastIndexOf s c) = c"
proof (induction s)
  case Nil
  then show ?case by simp
next
  case (Cons x xs)
  show ?case
  proof (cases "0 \<le> lastIndexOf xs c")
    case True
    then have "nat (lastIndexOf (x # xs) c) = Suc (nat (lastIndexOf xs c))"
      by (simp add: Let_def nat_add_distrib)
    with Cons True show ?thesis by simp
  next
    case False
    with Cons.prems show ?thesis by (simp add: Let_def split: if_splits)
  qed
qed

lemma baseUrl_last: "baseUrl url = [] \<or> last (baseUrl url) = CHR ''/''"
proof (cases "0 \<le> lastIndexOf url (CHR ''/'')")
  case True
  let ?i = "nat (lastIndexOf url (CHR ''/''))"
  have lt: "?i < length url"
    using True lastIndexOf_bounds [of url "CHR ''/''"] by simp
  have "baseUrl url = take (Suc ?i) url"
    using True by (simp add: baseUrl_take nat_add_distrib)
  then have "last (baseUrl url) = url ! ?i"
    using lt by (simp add: take_Suc_conv_app_nth)
  then show ?thesis using lastIndexOf_hit [OF True] by simp
next
  case False
  then have "lastIndexOf url (CHR ''/'') + 1 \<le> 0" by simp
  then show ?thesis by (simp add: baseUrl_take)
qed

text \<open>
  Claim C1, as the code has it. A segment URI that begins with the four characters
  \<^verbatim>\<open>http\<close> is used unchanged; every other URI is resolved to the base URL followed by
  the URI. The base URL is the part of the manifest URL up to and including its last
  \<^verbatim>\<open>/\<close>: the rest of the URL holds no \<^verbatim>\<open>/\<close>, and the base is empty (when the URL
  has no \<^verbatim>\<open>/\<close>) or ends with \<^verbatim>\<open>/\<close>.
\<close>

theorem segment_resolution:
  "segmentUrl (baseUrl url) seg =
     (if (\<exists>rest. uri seg = ''http'' @ rest) then uri seg else baseUrl url @ uri seg)
   \<and> (\<exists>rest. url = baseUrl url @ rest \<and> CHR ''/'' \<notin> set rest)
   \<and> (baseUrl url = [] \<or> last (baseUrl url) = CHR ''/'')"
proof -
  have a: "segmentUrl (baseUrl url) seg =
     (if (\<exists>rest. uri seg = ''http'' @ rest) then uri seg else baseUrl url @ uri seg)"
    by (simp only: segmentUrl_def startsWith_iff if_not_P if_P split: if_splits) auto
  have "url = baseUrl url @ drop (nat (lastIndexOf url (CHR ''/'') + 1)) url"
    by (simp add: baseUrl_take)
  then have b: "\<exists>rest. url = baseUrl url @ rest \<and> CHR ''/'' \<notin> set rest"
    using lastIndexOf_rest [of "CHR ''/''" url] by blast
  show ?thesis using a b baseUrl_last by blast
qed

theorem segment_resolution_witness:
  "baseUrl ''https://cdn.example.com/path/master.m3u8'' = ''https://cdn.example.com/path/''
   \<and> segmentUrl (baseUrl ''https://cdn.example.com/path/master.m3u8'') \<lparr>uri = ''seg0.ts''\<rparr>
       = ''https://cdn.example.com/path/seg0.ts''
   \<and> segmentUrl (baseUrl ''https://cdn.example.com/path/master.m3u8'')
         \<lparr>uri = ''https://other.example.com/seg1.ts''\<rparr>
       = ''https://other.example.com/seg1.ts''"
  using segment_resolution [of "''https://cdn.example.com/path/master.m3u8''" "\<lparr>uri = ''seg0.ts''\<rparr>"]
    segment_resolution [of "''https://cdn.example.com/path/master.m3u8''"
      "\<lparr>uri = ''https://other.example.com/seg1.ts''\<rparr>"]
  by (simp add: baseUrl_def substring_def Let_def)

text \<open>
  Claim C1 as stated fails, because the test for an absolute address is the prefix
  \<^verbatim>\<open>http\<close> and not a scheme. The relative name \<^verbatim>\<open>httpseg0.ts\<close>, which holds no
  colon and so no scheme, is used unchanged instead of being resolved against the base
  URL; the absolute address \<^verbatim>\<open>ftp://cdn.example.com/seg0.ts\<close> gets the base URL in
  front instead of being used unchanged.
\<close>

theorem segment_resolution_counterexample:
  "segmentUrl (baseUrl ''https://cdn.example.com/path/master.m3u8'') \<lparr>uri = ''httpseg0.ts''\<rparr>
     = ''httpseg0.ts''
   \<and> CHR '':'' \<notin> set ''httpseg0.ts''
   \<and> segmentUrl (baseUrl ''https://cdn.example.com/path/master.m3u8'')
         \<lparr>uri = ''ftp://cdn.example.com/seg0.ts''\<rparr>
     = ''https://cdn.example.com/path/ftp://cdn.example.com/seg0.ts''"
  by (simp add: segmentUrl_def startsWith_def baseUrl_def substring_def Let_def)

lemma split_on_no_sep: "c \<notin> set a \<Longrightarrow> split_on c a = [a]"
  by (induction a) auto

lemma split_on_append:
  "c \<notin> set a \<Longrightarrow> split_on c (a @ c # rest) = a # split_on c rest"
  by (induction a) auto

lemma split_on_join:
  "ls \<noteq> [] \<Longrightarrow> (\<forall>l \<in> set ls. c \<notin> set l) \<Longrightarrow> split_on c (js_join [c] ls) = ls"
proof (induction "[c]" ls rule: js_join.induct)
  case 1
  then show ?case by simp
next
  case (2 x)
  then show ?case by (simp add: split_on_no_sep)
next
  case (3 x y ys)
  then show ?case by (simp add: split_on_append)
qed

lemma newline_free_line:
  "CHR 0x0A \<notin> set (segmentUrl base s) \<Longrightarrow> CHR 0x0A \<notin> set (segmentLine base s)"
  by (simp add: segmentLine_def)

text \<open>
  The text that the handler writes for a string \<^verbatim>\<open>url\<close> is the concat list of the
  parsed segments, resolved against the base of that URL.
\<close>

lemma concat_list_written:
  "build_and_run e r fs (JStr u) segs = Returned out \<Longrightarrow>
     \<exists>r2 fs2 listFile outputFile.
       out = transcode e r2 fs2 listFile outputFile
       \<and> files fs2 listFile = Some (segmentsList (baseUrl u) segs)"
  unfolding build_and_run_def mkdirSync_def writeFileSync_def Let_def
  by (auto split: sum.splits if_splits option.splits)
    (intro exI conjI, rule refl, simp)+

text \<open>
  Claim C2, as the code has it. For every non-empty segment list in which no resolved
  URI holds a line feed, the lines of the concat list are exactly the lines
  \<^verbatim>\<open>file '<resolved-uri>'\<close> of the segments, one per segment, in the order of the
  manifest, duplicates kept, and nothing after the last of them.
\<close>

theorem concat_list_lines:
  "segs \<noteq> [] \<Longrightarrow> (\<forall>s \<in> set segs. CHR 0x0A \<notin> set (segmentUrl base s)) \<Longrightarrow>
     lines_of (segmentsList base segs) =
       map (\<lambda>s. ''file '' @ [CHR 0x27] @ segmentUrl base s @ [CHR 0x27]) segs"
proof -
  assume ne: "segs \<noteq> []" and free: "\<forall>s \<in> set segs. CHR 0x0A \<notin> set (segmentUrl base s)"
  have "\<forall>l \<in> set (map (segmentLine base) segs). CHR 0x0A \<notin> set l"
    using free newline_free_line by auto
  moreover have "map (segmentLine base) segs \<noteq> []" using ne by simp
  ultimately have "split_on (CHR 0x0A) (js_join [CHR 0x0A] (map (segmentLine base) segs))
      = map (segmentLine base) segs"
    by (rule split_on_join [rotated])
  then show ?thesis by (simp add: lines_of_def segmentsList_def segmentLine_def)
qed

theorem concat_list_lines_witness:
  "lines_of (segmentsList ''https://cdn.example.com/path/''
      [\<lparr>uri = ''seg0.ts''\<rparr>, \<lparr>uri = ''seg1.ts''\<rparr>, \<lparr>uri = ''seg0.ts''\<rparr>])
   = [''file '' @ [CHR 0x27] @ ''https://cdn.example.com/path/seg0.ts'' @ [CHR 0x27],
      ''file '' @ [CHR 0x27] @ ''https://cdn.example.com/path/seg1.ts'' @ [CHR 0x27],
      ''file '' @ [CHR 0x27] @ ''https://cdn.example.com/path/seg0.ts'' @ [CHR 0x27]]"
  using concat_list_lines [of "[\<lparr>uri = ''seg0.ts''\<rparr>, \<lparr>uri = ''seg1.ts''\<rparr>, \<lparr>uri = ''seg0.ts''\<rparr>]"
      "''https://cdn.example.com/path/''"]
  by (simp add: segmentUrl_def startsWith_def)

text \<open>
  Claim C2 as stated fails for a manifest URL with a line feed before its last
  \<^verbatim>\<open>/\<close>: the line feed is part of the base URL and so of every resolved relative URI,
  and the concat list of a single segment has two lines, neither of the form
  \<^verbatim>\<open>file '<uri>'\<close>.
\<close>

theorem concat_list_lines_counterexample:
  "lines_of (segmentsList (baseUrl (''http://h/'' @ [CHR 0x0A] @ ''/a.m3u8'')) [\<lparr>uri = ''s.ts''\<rparr>])
     = [''file '' @ [CHR 0x27] @ ''http://h/'', ''/s.ts'' @ [CHR 0x27]]
   \<and> length (lines_of (segmentsList (baseUrl (''http://h/'' @ [CHR 0x0A] @ ''/a.m3u8''))
         [\<lparr>uri = ''s.ts''\<rparr>])) = 2"
  by (simp add: lines_of_def segmentsList_def segmentLine_def segmentUrl_def startsWith_def
      baseUrl_def substring_def Let_def)

subsection \<open>Failures of the pipeline\<close>

text \<open>
  An exception thrown by a step of the try block (the \<^verbatim>\<open>includes\<close> test, the fetch,
  the parser, \<^verbatim>\<open>substring\<close>, \<^verbatim>\<open>mkdirSync\<close>, \<^verbatim>\<open>writeFileSync\<close>) reaches the
  catch block: the handler's promise is fulfilled and the status is 404 or 403 when
  the error carries a response with that status, and 500 otherwise.
\<close>

lemma caught_errors_classified:
  "method req \<in> {''GET'', ''POST''} \<Longrightarrow>
   try_block e (cors fresh_response) fs req = Thrown err r' fs' \<Longrightarrow>
     settled (handler e fs req) = Fulfilled
     \<and> status (res (handler e fs req)) =
         (if response_status err = Some 404 then 404
          else if response_status err = Some 403 then 403 else 500)"
  by (auto simp add: handler_def catch_block_def respond_def send_json_def set_status_def)

text \<open>
  Both terminal events of the transcoder delete the two temporary paths, and the end of
  the transcoder's output ends the response.
\<close>

lemma transcode_cleans_up:
  "ffmpeg e = RunnerEnd \<or> ffmpeg e = RunnerError err \<or> ffmpeg e = RunnerNotStarted err \<Longrightarrow>
     files (disk (transcode e r fs segmentsListFile outputFile)) segmentsListFile = None
     \<and> files (disk (transcode e r fs segmentsListFile outputFile)) outputFile = None"
  by (auto simp add: transcode_def cleanup_def existsSync_def unlinkSync_def Let_def dom_def)

lemma transcode_ends_response:
  "ffmpeg e = RunnerEnd \<or> ffmpeg e = RunnerError err \<Longrightarrow>
     ended (res (transcode e r fs segmentsListFile outputFile))"
  by (auto simp add: transcode_def end_response_def)

text \<open>
  Claim C6 at a transcoder failure. The manifest is fetched and parsed, the concat list
  is written and the transcoder emits its \<^verbatim>\<open>error\<close> event. The event handler rejects
  the promise that the try block returned without \<^verbatim>\<open>await\<close>, so the catch block does
  not run: the status stays 200 and no failure payload is sent, where the claim asks
  for status 500.
\<close>

theorem transcoder_failure_status:
  "status (res (handler (sample_env (RunnerError ffmpeg_failure)) empty_disk
      (sample_post (JStr sample_url)))) = 200
   \<and> payload (res (handler (sample_env (RunnerError ffmpeg_failure)) empty_disk
      (sample_post (JStr sample_url)))) \<noteq> JsonBody (failure_payload ffmpeg_failure)"
  by (simp add: handler_defs sample_defs response_defs startsWith_def Let_def)

text \<open>
  Claim C4 at a failure of the transcoder. When the transcoder cannot be started
  (\<^verbatim>\<open>Cannot find ffmpeg\<close>), its error is not caught by the handler: the promise of the
  handler is rejected with it, the status is still 200 and the response is neither
  given an error payload nor finished. When the transcoder runs and fails, the promise
  of the handler is rejected in the same way. The claim asks for one classified error
  response and no fault that escapes.
\<close>

theorem runner_error_escapes:
  "settled (handler (sample_env (RunnerNotStarted cannot_find_ffmpeg)) empty_disk
      (sample_get sample_url)) = Rejected cannot_find_ffmpeg
   \<and> status (res (handler (sample_env (RunnerNotStarted cannot_find_ffmpeg)) empty_disk
        (sample_get sample_url))) = 200
   \<and> ended (res (handler (sample_env (RunnerNotStarted cannot_find_ffmpeg)) empty_disk
        (sample_get sample_url))) = False
   \<and> payload (res (handler (sample_env (RunnerNotStarted cannot_find_ffmpeg)) empty_disk
        (sample_get sample_url))) = StreamBody
   \<and> settled (handler (sample_env (RunnerError ffmpeg_failure)) empty_disk
        (sample_get sample_url)) = Rejected ffmpeg_failure"
  by (simp add: handler_defs sample_defs response_defs startsWith_def Let_def)


end
